theory Spec2Isabelle
  imports Main
begin

section \<open>The serve layer of cmd/server/handler.go\<close>

text \<open>
  The theory embeds \<^verbatim>\<open>EnhanceMiddleware\<close>, \<^verbatim>\<open>isDSNAllowed\<close>, \<^verbatim>\<open>setup\<close>, \<^verbatim>\<open>serve\<close> and the
  three \<^verbatim>\<open>RunServe*\<close> commands. Whatever the file reaches through an imported package
  (configuration accessors, the environment, listeners, certificates) is a field of a
  record that the functions read, so every statement below holds for every behaviour of
  those packages.
\<close>

subsection \<open>Interfaces, configuration, registry\<close>

datatype ServeInterface = PublicInterface | AdminInterface

text \<open>
  Modelled from the spec: \<^verbatim>\<open>config.ServeInterface\<close> with its methods \<^verbatim>\<open>String\<close> and \<^verbatim>\<open>Key\<close>
  lives in driver/config, outside the given source. The spec has two interface
  identities, Admin and Public, and has the test \<^verbatim>\<open>iface.Key("prefix") == "serve.admin.prefix"\<close>
  mean "the interface is Admin": the key is \<^verbatim>\<open>serve.<name>.<suffix>\<close>.
\<close>

fun ServeInterface_String :: "ServeInterface \<Rightarrow> string" where
  "ServeInterface_String PublicInterface = ''public''"
| "ServeInterface_String AdminInterface = ''admin''"

definition Key :: "ServeInterface \<Rightarrow> string \<Rightarrow> string" where
  "Key iface suffix = ''serve.'' @ ServeInterface_String iface @ ''.'' @ suffix"

datatype error = Error string | ErrServerClosed

record TLSConfig =
  Enabled :: bool

type_synonym UnixPermission = string

type_synonym CORSOptions = "string list"

text \<open>
  \<^verbatim>\<open>d.Config()\<close>: the typed accessors that the file calls. The \<^verbatim>\<open>ctx\<close> argument of the
  accessors is the one command context everywhere and is left out.
\<close>

record Config =
  ListenOn :: "ServeInterface \<Rightarrow> string"
  SocketPermission :: "ServeInterface \<Rightarrow> UnixPermission"
  TLS :: "ServeInterface \<Rightarrow> TLSConfig"
  CORS :: "ServeInterface \<Rightarrow> CORSOptions \<times> bool"
  DSN :: string
  IssuerURL :: string
  DisableHealthAccessLog :: "ServeInterface \<Rightarrow> bool"
  CGroupsV1AutoMaxProcsEnabled :: bool

text \<open>\<^verbatim>\<open>driver.Registry\<close>: its configuration and whether its tracer is loaded.\<close>

record Registry =
  Config :: Config
  Tracer_IsLoaded :: bool

text \<open>\<^verbatim>\<open>servicelocatorx.Options\<close>: the registered HTTP middlewares, each an opaque function
  named by a number, in registration order.\<close>

record ServiceLocator =
  HTTPMiddlewares :: "nat list"

text \<open>\<^verbatim>\<open>cobra.Command\<close>: \<^verbatim>\<open>cmd.Flags().GetBool("zitified")\<close>, whose error the code drops.\<close>

record Command =
  GetBool_zitified :: bool

subsection \<open>Listeners and the world outside the process\<close>

record ListenOptions =
  ConnectTimeout :: int
  MaxConnections :: int

definition time_Second :: int where
  "time_Second = 1000000000"

definition time_Minute :: int where
  "time_Minute = 60 * time_Second"

datatype Listener =
    ZitiListener string ListenOptions
  | UnixListener string UnixPermission
  | TCPListener string

type_synonym Certificate = nat

text \<open>
  What the imported packages and the operating system answer. \<^verbatim>\<open>AddressIsUnixSocket\<close> is
  \<^verbatim>\<open>networkx.AddressIsUnixSocket\<close>; \<^verbatim>\<open>Getenv\<close> is \<^verbatim>\<open>os.Getenv\<close> (the empty string for an
  unset variable); \<^verbatim>\<open>driver_New\<close> is the result of \<^verbatim>\<open>driver.New\<close>; \<^verbatim>\<open>maxprocs_Set\<close> the error
  of \<^verbatim>\<open>maxprocs.Set\<close>; \<^verbatim>\<open>ListenWithOptions\<close> the error of the overlay context's
  \<^verbatim>\<open>ListenWithOptions\<close>; \<^verbatim>\<open>bind_unix\<close> and \<^verbatim>\<open>bind_tcp\<close> the error of binding a socket;
  \<^verbatim>\<open>GetOrCreateTLSCertificate\<close> the certificates, or \<^verbatim>\<open>None\<close> when acquisition ends the
  process; \<^verbatim>\<open>http_Serve\<close> the error with which a serve call comes back; \<^verbatim>\<open>shutdown\<close> the
  result of the graceful shutdown handler.
\<close>

datatype ServeCall = Serve Listener | ServeTLS Listener string string

record World =
  AddressIsUnixSocket :: "string \<Rightarrow> bool"
  Getenv :: "string \<Rightarrow> string"
  driver_New :: "error + Registry"
  maxprocs_Set :: "error option"
  ListenWithOptions :: "string \<Rightarrow> ListenOptions \<Rightarrow> error option"
  bind_unix :: "string \<Rightarrow> UnixPermission \<Rightarrow> error option"
  bind_tcp :: "string \<Rightarrow> error option"
  GetOrCreateTLSCertificate :: "ServeInterface \<Rightarrow> Certificate list option"
  http_Serve :: "ServeCall \<Rightarrow> error"
  shutdown :: "error option"

subsection \<open>The negroni middleware stack\<close>

text \<open>
  A \<^verbatim>\<open>negroni.Negroni\<close> is its slice of handlers; \<^verbatim>\<open>Use\<close> appends one, \<^verbatim>\<open>UseFunc\<close> and
  \<^verbatim>\<open>UseHandler\<close> append an adapted function or \<^verbatim>\<open>http.Handler\<close>. A request runs through
  the handlers in slice order, so the head of the list is the outermost wrapper.
\<close>

datatype Router = RouterAdmin | RouterPublic

datatype Func =
    RejectInsecureRequests TLSConfig
  | ServiceLocatorFunc nat
  | ContextualizedMiddleware "unit \<Rightarrow> CORSOptions \<times> bool"

datatype Handler =
    ReqLog string "string list"
  | PrometheusManager
  | MetricsService
  | HandlerFunc Func
  | Wrap Router

type_synonym Negroni = "Handler list"

definition negroni_New :: Negroni where
  "negroni_New = []"

definition Use :: "Negroni \<Rightarrow> Handler \<Rightarrow> Negroni" where
  "Use n h = n @ [h]"

definition UseFunc :: "Negroni \<Rightarrow> Func \<Rightarrow> Negroni" where
  "UseFunc n f = Use n (HandlerFunc f)"

definition UseHandler :: "Negroni \<Rightarrow> Router \<Rightarrow> Negroni" where
  "UseHandler n r = Use n (Wrap r)"

subsection \<open>EnhanceMiddleware (lines 70 to 85)\<close>

text \<open>
  The gate is added unless the address is a unix socket, then the service locator's
  middlewares in their order, then the router. The value of
  \<^verbatim>\<open>corsx.ContextualizedMiddleware\<close> is computed and dropped: the source has the call as a
  statement of its own. \<^verbatim>\<open>enableCORS\<close> is a parameter that the body never reads.
\<close>

definition EnhanceMiddleware ::
  "World \<Rightarrow> ServiceLocator \<Rightarrow> Registry \<Rightarrow> Negroni \<Rightarrow> string \<Rightarrow> Router \<Rightarrow> bool
     \<Rightarrow> ServeInterface \<Rightarrow> Negroni" where
  "EnhanceMiddleware w sl d n address router enableCORS iface =
     (let n1 = (if \<not> AddressIsUnixSocket w address
                then UseFunc n (RejectInsecureRequests (TLS (Config d) iface))
                else n);
          n2 = foldl (\<lambda>acc mw. UseFunc acc (ServiceLocatorFunc mw)) n1 (HTTPMiddlewares sl);
          n3 = UseHandler n2 router;
          dropped = ContextualizedMiddleware (\<lambda>ctx. CORS (Config d) iface)
      in n3)"

subsection \<open>isDSNAllowed (lines 87 to 91)\<close>

text \<open>\<^verbatim>\<open>Fatalf\<close> logs and ends the process: the result is the fatal message, or \<^verbatim>\<open>None\<close> when
  the function returns.\<close>

definition dsn_memory_message :: string where
  \<open>dsn_memory_message =
     ''When using "hydra serve admin" or "hydra serve public" the DSN can not be set to "memory".''\<close>

definition isDSNAllowed :: "Registry \<Rightarrow> string option" where
  "isDSNAllowed r = (if DSN (Config r) = ''memory'' then Some dsn_memory_message else None)"

subsection \<open>The function setup (lines 204 to 319)\<close>

text \<open>
  The function is named \<open>setup_fn\<close> here, its own name being a keyword of the prover. The
  two stacks that it builds: the request logger (with the health paths silenced
  when the configuration says so), the Prometheus manager, the metrics service. The
  banner, the options of the metrics service and the route registration do not touch the
  stacks and are left out. A failing \<^verbatim>\<open>maxprocs.Set\<close> ends the process.
  \<^verbatim>\<open>ExcludePaths\<close> changes the logger it is called on and returns it, so the public
  logger, whose returned value the source drops, is silenced like the admin one. The two
  health paths are constants of the imported package \<^verbatim>\<open>healthx\<close>; no statement below
  depends on their values.
\<close>

definition healthx_AliveCheckPath :: string where
  "healthx_AliveCheckPath = ''/health/alive''"

definition healthx_ReadyCheckPath :: string where
  "healthx_ReadyCheckPath = ''/health/ready''"

fun ExcludePaths :: "Handler \<Rightarrow> string list \<Rightarrow> Handler" where
  "ExcludePaths (ReqLog name silenced) paths = ReqLog name (silenced @ paths)"
| "ExcludePaths h paths = h"

definition NewMiddlewareFromLogger :: "string \<Rightarrow> Handler" where
  "NewMiddlewareFromLogger name = ReqLog name []"

definition setup_fn :: "World \<Rightarrow> Registry \<Rightarrow> string + (Router \<times> Router \<times> Negroni \<times> Negroni)" where
  "setup_fn w d =
     (if CGroupsV1AutoMaxProcsEnabled (Config d) \<and> maxprocs_Set w \<noteq> None
      then Inl ''Couldn't set GOMAXPROCS''
      else
        let adminmw = negroni_New;
            publicmw = negroni_New;
            admin = RouterAdmin;
            public = RouterPublic;
            adminLogger = NewMiddlewareFromLogger (''hydra/admin: '' @ IssuerURL (Config d));
            adminLogger = (if DisableHealthAccessLog (Config d) AdminInterface
                           then ExcludePaths adminLogger
                                  [''/admin'' @ healthx_AliveCheckPath,
                                   ''/admin'' @ healthx_ReadyCheckPath]
                           else adminLogger);
            adminmw = Use adminmw adminLogger;
            adminmw = Use adminmw PrometheusManager;
            publicLogger = NewMiddlewareFromLogger (''hydra/public: '' @ IssuerURL (Config d));
            publicLogger = (if DisableHealthAccessLog (Config d) PublicInterface
                            then ExcludePaths publicLogger
                                   [healthx_AliveCheckPath, healthx_ReadyCheckPath]
                            else publicLogger);
            publicmw = Use publicmw publicLogger;
            publicmw = Use publicmw PrometheusManager;
            metrics = MetricsService;
            adminmw = Use adminmw metrics;
            publicmw = Use publicmw metrics
        in Inr (admin, public, adminmw, publicmw))"

subsection \<open>serve: what a serving task does and leaves behind\<close>

text \<open>
  A serving task is followed through the log lines it writes and the calls it makes to
  the packages that create listeners, acquire certificates and serve.
\<close>

datatype Event =
    Infof string
  | Warnln string
  | Fatal string
  | Call_GetOrCreateTLSCertificate ServeInterface
  | Call_ListenWithOptions string ListenOptions
  | Call_MakeListener string UnixPermission
  | Call_Serve ServeCall

datatype HttpHandler = NegroniHandler Negroni | TraceHandler HttpHandler

record tls_Config =
  Certificates :: "Certificate list"

record Server =
  Handler :: HttpHandler
  TLSConfig :: "tls_Config option"
  ReadHeaderTimeout :: int

text \<open>
  Modelled from the spec: \<^verbatim>\<open>networkx.MakeListener\<close> is imported and not part of the given
  source. Section 4.1 of the spec: a filesystem-path target binds a filesystem-socket
  listener with the supplied permission, any other target binds a standard network
  listener on the address; either may fail.
\<close>

definition MakeListener :: "World \<Rightarrow> string \<Rightarrow> UnixPermission \<Rightarrow> error + Listener" where
  "MakeListener w address permission =
     (if AddressIsUnixSocket w address
      then (case bind_unix w address permission of
              Some err \<Rightarrow> Inl err
            | None \<Rightarrow> Inr (UnixListener address permission))
      else (case bind_tcp w address of
              Some err \<Rightarrow> Inl err
            | None \<Rightarrow> Inr (TCPListener address)))"

text \<open>
  Lines 355 to 389, the choice of the listener inside the start closure. The overlay
  listener is asked for when the flag is set and the key of the interface is the admin
  one; its service name comes from the environment, and an empty name is an error
  returned before anything listens. Every other case goes to \<^verbatim>\<open>networkx.MakeListener\<close>.
\<close>

definition serve_listener ::
  "World \<Rightarrow> Command \<Rightarrow> ServeInterface \<Rightarrow> string \<Rightarrow> UnixPermission
     \<Rightarrow> Event list \<times> (error + Listener)" where
  "serve_listener w cmd iface address permission =
     (let zitified = GetBool_zitified cmd;
          log0 = [Infof (''CW: Incoming config interface: '' @ Key iface ''prefix'')]
      in if zitified \<and> Key iface ''prefix'' = ''serve.admin.prefix''
         then
           (let zitiService = Getenv w ''ZITI_SERVICE''
            in if zitiService = []
               then (log0, Inl (Error
                 ''Zitified flag set, but ZITI_SERVICE environment variable not found''))
               else
                 (let log1 = log0 @ [Infof (''Setting up Zitified listener on '' @ zitiService)];
                      options = \<lparr>ConnectTimeout = 5 * time_Minute, MaxConnections = 3\<rparr>;
                      log2 = log1 @ [Call_ListenWithOptions zitiService options]
                  in case ListenWithOptions w zitiService options of
                       Some err \<Rightarrow> (log2, Inl err)
                     | None \<Rightarrow> (log2, Inr (ZitiListener zitiService options))))
         else
           (let log1 = log0 @ [Infof ''Setting non Zitified listener'',
                               Call_MakeListener address permission]
            in case MakeListener w address permission of
                 Inl err \<Rightarrow> (log1, Inl err)
               | Inr listener \<Rightarrow> (log1, Inr listener)))"

text \<open>
  Lines 392 to 404, the choice of the serve call once a listener exists: the unix-socket
  test comes first, then the test of the local \<^verbatim>\<open>tlsConfig\<close>, then the plain call with
  its warning on the public interface.
\<close>

definition https_disabled_message :: string where
  "https_disabled_message =
     ''HTTPS is disabled. Please ensure that your proxy is configured to provide HTTPS, and that it redirects HTTP to HTTPS.''"

definition serve_dispatch ::
  "World \<Rightarrow> ServeInterface \<Rightarrow> string \<Rightarrow> tls_Config option \<Rightarrow> Listener
     \<Rightarrow> Event list \<times> ServeCall" where
  "serve_dispatch w iface address tlsConfig listener =
     (if AddressIsUnixSocket w address then ([], Serve listener)
      else if tlsConfig \<noteq> None then ([], ServeTLS listener [] [])
      else (if iface = PublicInterface then [Warnln https_disabled_message] else [],
            Serve listener))"

text \<open>Lines 349 to 405, the closure handed to \<^verbatim>\<open>graceful.Graceful\<close>: it returns the error of
  the listener, or the serve call whose result it hands back.\<close>

definition serve_start ::
  "World \<Rightarrow> Command \<Rightarrow> ServeInterface \<Rightarrow> string \<Rightarrow> UnixPermission \<Rightarrow> tls_Config option
     \<Rightarrow> Event list \<times> (error + ServeCall)" where
  "serve_start w cmd iface address permission tlsConfig =
     (let log0 = [Infof (''Setting up http server on '' @ address)]
      in case serve_listener w cmd iface address permission of
           (log1, Inl err) \<Rightarrow> (log0 @ log1, Inl err)
         | (log1, Inr listener) \<Rightarrow>
             (case serve_dispatch w iface address tlsConfig listener of
                (log2, call) \<Rightarrow> (log0 @ log1 @ log2, Inr call)))"

text \<open>
  \<^verbatim>\<open>graceful.Graceful\<close> runs the closure; an error other than \<^verbatim>\<open>http.ErrServerClosed\<close> is
  its result, and after \<^verbatim>\<open>ErrServerClosed\<close> the result is that of the shutdown handler.
\<close>

definition Graceful :: "World \<Rightarrow> Event list \<times> (error + ServeCall) \<Rightarrow> Event list \<times> error option" where
  "Graceful w start =
     (case start of
        (log, Inl err) \<Rightarrow> (log, if err \<noteq> ErrServerClosed then Some err else shutdown w)
      | (log, Inr call) \<Rightarrow>
          (log @ [Call_Serve call],
           if http_Serve w call \<noteq> ErrServerClosed then Some (http_Serve w call)
           else shutdown w))"

text \<open>
  Lines 321 to 408. A task ends by returning, which runs the deferred \<^verbatim>\<open>wg.Done()\<close>, or by
  a fatal log call, which ends the process. The result carries the server that was
  built, when the task got that far.
\<close>

datatype TaskEnd = Returns | ProcessExit

definition serve ::
  "World \<Rightarrow> Registry \<Rightarrow> Command \<Rightarrow> ServeInterface \<Rightarrow> Negroni \<Rightarrow> string \<Rightarrow> UnixPermission
     \<Rightarrow> Event list \<times> Server option \<times> TaskEnd" where
  "serve w d cmd iface handler address permission =
     (let handler = (if Tracer_IsLoaded d then TraceHandler (NegroniHandler handler)
                     else NegroniHandler handler);
          tc = TLS (Config d) iface
      in if Enabled tc \<and> GetOrCreateTLSCertificate w iface = None
         then ([Call_GetOrCreateTLSCertificate iface], None, ProcessExit)
         else
           (let tlsConfig = (if Enabled tc
                             then map_option (\<lambda>cs. \<lparr>Certificates = cs\<rparr>)
                                    (GetOrCreateTLSCertificate w iface)
                             else None);
                log0 = (if Enabled tc then [Call_GetOrCreateTLSCertificate iface] else []);
                srv = \<lparr>Handler = handler, TLSConfig = tlsConfig,
                       ReadHeaderTimeout = time_Second * 5\<rparr>
            in case Graceful w (serve_start w cmd iface address permission tlsConfig) of
                 (log1, Some err) \<Rightarrow>
                   (log0 @ log1 @ [Fatal ''Could not gracefully run server''], Some srv,
                    ProcessExit)
               | (log1, None) \<Rightarrow> (log0 @ log1, Some srv, Returns)))"

subsection \<open>The three commands (lines 93 to 202)\<close>

text \<open>
  A command returns the error of \<^verbatim>\<open>driver.New\<close>, or ends the process in a fatal log call,
  or adds to the wait group, starts its serving tasks with \<^verbatim>\<open>go serve(...)\<close> and waits.
  A task is the argument list of its \<^verbatim>\<open>serve\<close> call. Registering the routers with the
  Prometheus manager changes neither the stacks nor the tasks and is left out.
\<close>

record ServeTask =
  task_d :: Registry
  task_cmd :: Command
  task_iface :: ServeInterface
  task_handler :: Negroni
  task_address :: string
  task_permission :: UnixPermission

datatype RunResult =
    ReturnErr error
  | FatalExit string
  | Spawn nat "ServeTask list"

definition RunServeAdmin :: "World \<Rightarrow> ServiceLocator \<Rightarrow> Command \<Rightarrow> RunResult" where
  "RunServeAdmin w sl cmd =
     (case driver_New w of
        Inl err \<Rightarrow> ReturnErr err
      | Inr d \<Rightarrow>
          (case isDSNAllowed d of
             Some msg \<Rightarrow> FatalExit msg
           | None \<Rightarrow>
               (case setup_fn w d of
                  Inl msg \<Rightarrow> FatalExit msg
                | Inr (admin, public, adminmw, publicmw) \<Rightarrow>
                    Spawn 1
                      [\<lparr>task_d = d, task_cmd = cmd, task_iface = AdminInterface,
                        task_handler = EnhanceMiddleware w sl d adminmw
                          (ListenOn (Config d) AdminInterface) admin True AdminInterface,
                        task_address = ListenOn (Config d) AdminInterface,
                        task_permission = SocketPermission (Config d) AdminInterface\<rparr>])))"

definition RunServePublic :: "World \<Rightarrow> ServiceLocator \<Rightarrow> Command \<Rightarrow> RunResult" where
  "RunServePublic w sl cmd =
     (case driver_New w of
        Inl err \<Rightarrow> ReturnErr err
      | Inr d \<Rightarrow>
          (case isDSNAllowed d of
             Some msg \<Rightarrow> FatalExit msg
           | None \<Rightarrow>
               (case setup_fn w d of
                  Inl msg \<Rightarrow> FatalExit msg
                | Inr (admin, public, adminmw, publicmw) \<Rightarrow>
                    Spawn 1
                      [\<lparr>task_d = d, task_cmd = cmd, task_iface = PublicInterface,
                        task_handler = EnhanceMiddleware w sl d publicmw
                          (ListenOn (Config d) PublicInterface) public False PublicInterface,
                        task_address = ListenOn (Config d) PublicInterface,
                        task_permission = SocketPermission (Config d) PublicInterface\<rparr>])))"

definition RunServeAll :: "World \<Rightarrow> ServiceLocator \<Rightarrow> Command \<Rightarrow> RunResult" where
  "RunServeAll w sl cmd =
     (case driver_New w of
        Inl err \<Rightarrow> ReturnErr err
      | Inr d \<Rightarrow>
          (case setup_fn w d of
             Inl msg \<Rightarrow> FatalExit msg
           | Inr (admin, public, adminmw, publicmw) \<Rightarrow>
               Spawn 2
                 [\<lparr>task_d = d, task_cmd = cmd, task_iface = PublicInterface,
                   task_handler = EnhanceMiddleware w sl d publicmw
                     (ListenOn (Config d) PublicInterface) public False PublicInterface,
                   task_address = ListenOn (Config d) PublicInterface,
                   task_permission = SocketPermission (Config d) PublicInterface\<rparr>,
                  \<lparr>task_d = d, task_cmd = cmd, task_iface = AdminInterface,
                   task_handler = EnhanceMiddleware w sl d adminmw
                     (ListenOn (Config d) AdminInterface) admin True AdminInterface,
                   task_address = ListenOn (Config d) AdminInterface,
                   task_permission = SocketPermission (Config d) AdminInterface\<rparr>]))"

subsection \<open>The wait group: spawned tasks and the waiting command\<close>

text \<open>
  After \<^verbatim>\<open>wg.Add(n)\<close> and the \<^verbatim>\<open>go\<close> statements the command blocks in \<^verbatim>\<open>wg.Wait()\<close>. The
  tasks end in any order. A task that returns runs its deferred \<^verbatim>\<open>wg.Done()\<close>, which
  lowers the counter by one; a task that ends in a fatal log call ends the process, after
  which nothing moves; \<^verbatim>\<open>wg.Wait()\<close> returns only at counter zero, and then the command
  returns \<^verbatim>\<open>nil\<close>. A schedule is the order in which these steps happen.
\<close>

datatype TaskStatus = Running | Ended TaskEnd

record Process =
  wg :: int
  status :: "TaskStatus list"
  returned :: bool
  exited :: bool

definition spawn :: "nat \<Rightarrow> ServeTask list \<Rightarrow> Process" where
  "spawn n ts = \<lparr>wg = int n, status = map (\<lambda>t. Running) ts, returned = False, exited = False\<rparr>"

definition run_task :: "World \<Rightarrow> ServeTask \<Rightarrow> Event list \<times> Server option \<times> TaskEnd" where
  "run_task w t =
     serve w (task_d t) (task_cmd t) (task_iface t) (task_handler t) (task_address t)
       (task_permission t)"

datatype Action = TaskEnds nat | WaitReturns

fun step :: "World \<Rightarrow> ServeTask list \<Rightarrow> Action \<Rightarrow> Process \<Rightarrow> Process option" where
  "step w ts (TaskEnds i) p =
     (if exited p then None
      else if length (status p) \<le> i then None
      else if status p ! i = Running
      then (case snd (snd (run_task w (ts ! i))) of
              Returns \<Rightarrow> Some (p\<lparr>status := (status p)[i := Ended Returns], wg := wg p - 1\<rparr>)
            | ProcessExit \<Rightarrow>
                Some (p\<lparr>status := (status p)[i := Ended ProcessExit], exited := True\<rparr>))
      else None)"
| "step w ts WaitReturns p =
     (if exited p then None
      else if returned p then None
      else if wg p = 0 then Some (p\<lparr>returned := True\<rparr>)
      else None)"

fun run :: "World \<Rightarrow> ServeTask list \<Rightarrow> Action list \<Rightarrow> Process \<Rightarrow> Process option" where
  "run w ts [] p = Some p"
| "run w ts (a # as) p = (case step w ts a p of None \<Rightarrow> None | Some p' \<Rightarrow> run w ts as p')"

subsection \<open>Observations on stacks and event logs\<close>

text \<open>Which handler of a stack is the reject-insecure-request gate, which a contextual
  CORS middleware; which event creates a listener, which is a serve call.\<close>

fun is_gate :: "Handler \<Rightarrow> bool" where
  "is_gate (HandlerFunc (RejectInsecureRequests tls)) = True"
| "is_gate h = False"

fun is_cors :: "Handler \<Rightarrow> bool" where
  "is_cors (HandlerFunc (ContextualizedMiddleware decide)) = True"
| "is_cors h = False"

fun is_listen_call :: "Event \<Rightarrow> bool" where
  "is_listen_call (Call_ListenWithOptions service options) = True"
| "is_listen_call (Call_MakeListener address permission) = True"
| "is_listen_call e = False"

fun is_serve_call :: "Event \<Rightarrow> bool" where
  "is_serve_call (Call_Serve call) = True"
| "is_serve_call e = False"

fun is_warning :: "Event \<Rightarrow> bool" where
  "is_warning (Warnln msg) = True"
| "is_warning e = False"

text \<open>The router that \<^verbatim>\<open>setup\<close> creates for an interface, and the stacks of the tasks
  that a command starts.\<close>

fun router_of :: "ServeInterface \<Rightarrow> Router" where
  "router_of AdminInterface = RouterAdmin"
| "router_of PublicInterface = RouterPublic"

fun pipelines :: "RunResult \<Rightarrow> Negroni list" where
  "pipelines (Spawn n ts) = map task_handler ts"
| "pipelines r = []"

subsection \<open>A concrete deployment\<close>

text \<open>
  Both interfaces on TCP ports without TLS, two middlewares registered with the service
  locator, CORS enabled, a database as data source, and an outside world in which nothing fails and a
  served listener stops on a graceful shutdown. An address is a unix socket when it
  starts with \<^verbatim>\<open>unix:\<close>.
\<close>

definition example_config :: Config where
  "example_config =
     \<lparr>ListenOn = (\<lambda>iface. case iface of PublicInterface \<Rightarrow> '':4444''
                                       | AdminInterface \<Rightarrow> '':4445''),
      SocketPermission = (\<lambda>iface. ''0644''),
      TLS = (\<lambda>iface. \<lparr>Enabled = False\<rparr>),
      CORS = (\<lambda>iface. ([''https://app.example''], True)),
      DSN = ''postgres://hydra@db/hydra'',
      IssuerURL = ''https://hydra.example/'',
      DisableHealthAccessLog = (\<lambda>iface. False),
      CGroupsV1AutoMaxProcsEnabled = False\<rparr>"

definition example_registry :: Registry where
  "example_registry = \<lparr>Config = example_config, Tracer_IsLoaded = False\<rparr>"

definition example_world :: World where
  "example_world =
     \<lparr>AddressIsUnixSocket = (\<lambda>address. take 5 address = ''unix:''),
      Getenv = (\<lambda>name. if name = ''ZITI_SERVICE'' then ''nf-hydra-service'' else []),
      driver_New = Inr example_registry,
      maxprocs_Set = None,
      ListenWithOptions = (\<lambda>service options. None),
      bind_unix = (\<lambda>address permission. None),
      bind_tcp = (\<lambda>address. None),
      GetOrCreateTLSCertificate = (\<lambda>iface. Some [1]),
      http_Serve = (\<lambda>call. ErrServerClosed),
      shutdown = None\<rparr>"

definition example_sl :: ServiceLocator where
  "example_sl = \<lparr>HTTPMiddlewares = [7, 8]\<rparr>"

text \<open>The same deployment with the admin interface on a unix socket, and with TLS on.\<close>

definition socket_config :: Config where
  "socket_config =
     example_config\<lparr>ListenOn := (\<lambda>iface. case iface of PublicInterface \<Rightarrow> '':4444''
                                       | AdminInterface \<Rightarrow> ''unix:/tmp/admin.sock''),
                    TLS := (\<lambda>iface. \<lparr>Enabled = True\<rparr>)\<rparr>"

definition socket_registry :: Registry where
  "socket_registry = \<lparr>Config = socket_config, Tracer_IsLoaded = False\<rparr>"

definition socket_world :: World where
  "socket_world = example_world\<lparr>driver_New := Inr socket_registry\<rparr>"

text \<open>The first deployment with the in-memory data source, and the first outside world
  without the \<^verbatim>\<open>ZITI_SERVICE\<close> variable.\<close>

definition memory_world :: World where
  "memory_world =
     example_world\<lparr>driver_New :=
       Inr (example_registry\<lparr>Config := example_config\<lparr>DSN := ''memory''\<rparr>\<rparr>)\<rparr>"

definition unset_world :: World where
  "unset_world = example_world\<lparr>Getenv := (\<lambda>name. [])\<rparr>"

definition example_cmd :: Command where
  "example_cmd = \<lparr>GetBool_zitified = False\<rparr>"

definition zitified_cmd :: Command where
  "zitified_cmd = \<lparr>GetBool_zitified = True\<rparr>"

text \<open>The tasks that serving both interfaces starts in the concrete deployment.\<close>

definition example_tasks :: "ServeTask list" where
  "example_tasks =
     (case RunServeAll example_world example_sl example_cmd of
        Spawn n ts \<Rightarrow> ts
      | ReturnErr err \<Rightarrow> []
      | FatalExit msg \<Rightarrow> [])"

subsection \<open>The invariant of the wait group\<close>

text \<open>
  In an exited process the command has not returned. In a live one the counter is the
  number of tasks still running, no task has ended the process, and the command has
  returned only at counter zero.
\<close>

definition wg_invariant :: "Process \<Rightarrow> bool" where
  "wg_invariant p =
     (if exited p then returned p = False
      else (wg p = int (length (filter (\<lambda>s. s = Running) (status p)))
            \<and> filter (\<lambda>s. s = Ended ProcessExit) (status p) = []
            \<and> (if returned p then wg p = 0 else True)))"

section \<open>Properties\<close>

subsection \<open>Unfolding the concrete deployments\<close>

lemmas deployment_defs =
  example_world_def example_registry_def example_config_def example_sl_def example_cmd_def
  zitified_cmd_def socket_world_def socket_registry_def socket_config_def memory_world_def
  unset_world_def

lemmas stack_defs =
  setup_fn_def EnhanceMiddleware_def negroni_New_def Use_def UseFunc_def UseHandler_def
  NewMiddlewareFromLogger_def Let_def

lemmas serve_defs =
  run_task_def serve_def serve_start_def serve_listener_def serve_dispatch_def Graceful_def
  MakeListener_def Key_def time_Minute_def time_Second_def Let_def

lemma example_run_all:
  "RunServeAll example_world example_sl example_cmd = Spawn 2 example_tasks"
  by (simp add: example_tasks_def RunServeAll_def deployment_defs stack_defs)

lemma example_tasks_eval:
  "example_tasks =
     [\<lparr>task_d = example_registry, task_cmd = example_cmd, task_iface = PublicInterface,
       task_handler =
         [ReqLog ''hydra/public: https://hydra.example/'' [], PrometheusManager, MetricsService,
          HandlerFunc (RejectInsecureRequests \<lparr>Enabled = False\<rparr>),
          HandlerFunc (ServiceLocatorFunc 7), HandlerFunc (ServiceLocatorFunc 8),
          Wrap RouterPublic],
       task_address = '':4444'', task_permission = ''0644''\<rparr>,
      \<lparr>task_d = example_registry, task_cmd = example_cmd, task_iface = AdminInterface,
       task_handler =
         [ReqLog ''hydra/admin: https://hydra.example/'' [], PrometheusManager, MetricsService,
          HandlerFunc (RejectInsecureRequests \<lparr>Enabled = False\<rparr>),
          HandlerFunc (ServiceLocatorFunc 7), HandlerFunc (ServiceLocatorFunc 8),
          Wrap RouterAdmin],
       task_address = '':4445'', task_permission = ''0644''\<rparr>]"
  by (simp add: example_tasks_def RunServeAll_def deployment_defs stack_defs)

subsection \<open>The composed stack\<close>

lemma foldl_UseFunc:
  "foldl (\<lambda>acc mw. UseFunc acc (ServiceLocatorFunc mw)) n mws =
     n @ map (\<lambda>mw. HandlerFunc (ServiceLocatorFunc mw)) mws"
  by (induction mws arbitrary: n) (simp_all add: UseFunc_def Use_def)

lemma EnhanceMiddleware_stack:
  "EnhanceMiddleware w sl d n address router enableCORS iface =
     n @ (if AddressIsUnixSocket w address then []
          else [HandlerFunc (RejectInsecureRequests (TLS (Config d) iface))])
       @ map (\<lambda>mw. HandlerFunc (ServiceLocatorFunc mw)) (HTTPMiddlewares sl)
       @ [Wrap router]"
  unfolding EnhanceMiddleware_def Let_def foldl_UseFunc
  by (simp add: UseFunc_def UseHandler_def Use_def)

lemma setup_fn_stacks:
  assumes "setup_fn w d = Inr (admin, public, adminmw, publicmw)"
  shows "admin = RouterAdmin" and "public = RouterPublic"
    and "\<exists>name paths. adminmw = [ReqLog name paths, PrometheusManager, MetricsService]"
    and "\<exists>name paths. publicmw = [ReqLog name paths, PrometheusManager, MetricsService]"
  using assms
  by (auto simp add: setup_fn_def Let_def negroni_New_def Use_def NewMiddlewareFromLogger_def
      split: if_splits)

lemma spawned_task:
  assumes "command \<in> {RunServeAdmin, RunServePublic, RunServeAll}"
    and "command w sl cmd = Spawn n ts" and "t \<in> set ts"
  shows "\<exists>d admin public adminmw publicmw.
           driver_New w = Inr d \<and> setup_fn w d = Inr (admin, public, adminmw, publicmw) \<and>
           task_d t = d \<and> task_cmd t = cmd \<and>
           task_address t = ListenOn (Config d) (task_iface t) \<and>
           task_permission t = SocketPermission (Config d) (task_iface t) \<and>
           task_handler t =
             EnhanceMiddleware w sl d
               (case task_iface t of AdminInterface \<Rightarrow> adminmw | PublicInterface \<Rightarrow> publicmw)
               (task_address t)
               (case task_iface t of AdminInterface \<Rightarrow> admin | PublicInterface \<Rightarrow> public)
               (task_iface t = AdminInterface) (task_iface t)"
  using assms
  by (auto simp add: RunServeAdmin_def RunServePublic_def RunServeAll_def
      split: sum.splits option.splits prod.splits)

lemma task_pipeline:
  assumes "command \<in> {RunServeAdmin, RunServePublic, RunServeAll}"
    and "command w sl cmd = Spawn n ts" and "t \<in> set ts"
  shows "\<exists>name paths.
           task_handler t =
             [ReqLog name paths, PrometheusManager, MetricsService]
             @ (if AddressIsUnixSocket w (task_address t) then []
                else [HandlerFunc (RejectInsecureRequests (TLS (Config (task_d t)) (task_iface t)))])
             @ map (\<lambda>mw. HandlerFunc (ServiceLocatorFunc mw)) (HTTPMiddlewares sl)
             @ [Wrap (router_of (task_iface t))]"
proof -
  from spawned_task [OF assms] obtain d admin public adminmw publicmw where
    s: "setup_fn w d = Inr (admin, public, adminmw, publicmw)" and d: "task_d t = d"
    and h: "task_handler t =
             EnhanceMiddleware w sl d
               (case task_iface t of AdminInterface \<Rightarrow> adminmw | PublicInterface \<Rightarrow> publicmw)
               (task_address t)
               (case task_iface t of AdminInterface \<Rightarrow> admin | PublicInterface \<Rightarrow> public)
               (task_iface t = AdminInterface) (task_iface t)"
    by blast
  from setup_fn_stacks [OF s] obtain na pa np pp where
    r: "admin = RouterAdmin" "public = RouterPublic"
    and a: "adminmw = [ReqLog na pa, PrometheusManager, MetricsService]"
    and p: "publicmw = [ReqLog np pp, PrometheusManager, MetricsService]"
    by blast
  show ?thesis
  proof (cases "task_iface t")
    case PublicInterface
    with h d r p show ?thesis by (simp add: EnhanceMiddleware_stack)
  next
    case AdminInterface
    with h d r a show ?thesis by (simp add: EnhanceMiddleware_stack)
  qed
qed

lemma task_listen_address:
  assumes "command \<in> {RunServeAdmin, RunServePublic, RunServeAll}"
    and "command w sl cmd = Spawn n ts" and "t \<in> set ts"
  shows "task_address t = ListenOn (Config (task_d t)) (task_iface t)"
  using spawned_task [OF assms] by auto

lemma filter_sl_cors: "filter is_cors (map (\<lambda>mw. HandlerFunc (ServiceLocatorFunc mw)) mws) = []"
  by (induction mws) simp_all

text \<open>
  Claim C1, as the code has it. For every stack that a command composes for an interface
  whose listen address is not a unix socket, the order is: the access log, the Prometheus
  manager and the metrics service, which \<^verbatim>\<open>setup\<close> put on the stack first; then the
  reject-insecure-request gate; then the service locator's middlewares in registration
  order; then the router. The gate is the first stage that the composer adds, not the
  outermost one.
\<close>

theorem pipeline_order:
  assumes "command \<in> {RunServeAdmin, RunServePublic, RunServeAll}"
    and "command w sl cmd = Spawn n ts" and "t \<in> set ts"
    and "\<not> AddressIsUnixSocket w (ListenOn (Config (task_d t)) (task_iface t))"
  shows "\<exists>name paths.
           task_handler t =
             [ReqLog name paths, PrometheusManager, MetricsService,
              HandlerFunc (RejectInsecureRequests (TLS (Config (task_d t)) (task_iface t)))]
             @ map (\<lambda>mw. HandlerFunc (ServiceLocatorFunc mw)) (HTTPMiddlewares sl)
             @ [Wrap (router_of (task_iface t))]"
  using task_pipeline [OF assms(1-3)] task_listen_address [OF assms(1-3)] assms(4)
  by simp

text \<open>The admin task of the concrete deployment, where both interfaces are served.\<close>

theorem pipeline_order_witness:
  "RunServeAll example_world example_sl example_cmd = Spawn 2 example_tasks
   \<and> example_tasks ! 1 \<in> set example_tasks
   \<and> \<not> AddressIsUnixSocket example_world
         (ListenOn (Config (task_d (example_tasks ! 1))) (task_iface (example_tasks ! 1)))
   \<and> (\<exists>name paths.
         task_handler (example_tasks ! 1) =
           [ReqLog name paths, PrometheusManager, MetricsService,
            HandlerFunc (RejectInsecureRequests \<lparr>Enabled = False\<rparr>),
            HandlerFunc (ServiceLocatorFunc 7), HandlerFunc (ServiceLocatorFunc 8),
            Wrap RouterAdmin])"
proof -
  have c: "RunServeAll \<in> {RunServeAdmin, RunServePublic, RunServeAll}" by simp
  have m: "example_tasks ! 1 \<in> set example_tasks" by (simp add: example_tasks_eval)
  have u: "\<not> AddressIsUnixSocket example_world
         (ListenOn (Config (task_d (example_tasks ! 1))) (task_iface (example_tasks ! 1)))"
    by (simp add: example_tasks_eval deployment_defs)
  from pipeline_order [OF c example_run_all m u] example_run_all m u show ?thesis
    by (simp add: example_tasks_eval deployment_defs)
qed

text \<open>
  The order of the claim fails there: the admin address \<^verbatim>\<open>:4445\<close> is no unix socket, and
  the outermost handler of the admin stack is the access log; the gate is the fourth.
\<close>

theorem gate_outermost_counterexample:
  "pipelines (RunServeAll example_world example_sl example_cmd) ! 1 =
     [ReqLog ''hydra/admin: https://hydra.example/'' [], PrometheusManager, MetricsService,
      HandlerFunc (RejectInsecureRequests \<lparr>Enabled = False\<rparr>),
      HandlerFunc (ServiceLocatorFunc 7), HandlerFunc (ServiceLocatorFunc 8), Wrap RouterAdmin]
   \<and> \<not> AddressIsUnixSocket example_world (ListenOn example_config AdminInterface)
   \<and> \<not> is_gate (hd (pipelines (RunServeAll example_world example_sl example_cmd) ! 1))"
  unfolding example_run_all example_tasks_eval
  by (simp add: deployment_defs)

text \<open>
  Claim C4. In every stack that a command composes, the reject-insecure-request gate is
  present exactly when the listen address of the interface is not a unix socket.
\<close>

theorem gate_iff_not_unix_socket:
  assumes "command \<in> {RunServeAdmin, RunServePublic, RunServeAll}"
    and "command w sl cmd = Spawn n ts" and "t \<in> set ts"
  shows "list_ex is_gate (task_handler t)
           \<longleftrightarrow> \<not> AddressIsUnixSocket w (ListenOn (Config (task_d t)) (task_iface t))"
  using task_pipeline [OF assms] task_listen_address [OF assms]
  by (auto simp add: list_ex_iff)

text \<open>The admin interface alone, on the socket \<^verbatim>\<open>unix:/tmp/admin.sock\<close>: no gate.\<close>

theorem gate_iff_not_unix_socket_witness:
  "RunServeAdmin socket_world example_sl example_cmd
     = Spawn 1 [\<lparr>task_d = socket_registry, task_cmd = example_cmd, task_iface = AdminInterface,
                 task_handler =
                   [ReqLog ''hydra/admin: https://hydra.example/'' [], PrometheusManager,
                    MetricsService, HandlerFunc (ServiceLocatorFunc 7),
                    HandlerFunc (ServiceLocatorFunc 8), Wrap RouterAdmin],
                 task_address = ''unix:/tmp/admin.sock'', task_permission = ''0644''\<rparr>]
   \<and> AddressIsUnixSocket socket_world (ListenOn (Config socket_registry) AdminInterface)
   \<and> \<not> list_ex is_gate
         [ReqLog ''hydra/admin: https://hydra.example/'' [], PrometheusManager,
          MetricsService, HandlerFunc (ServiceLocatorFunc 7),
          HandlerFunc (ServiceLocatorFunc 8), Wrap RouterAdmin]"
proof -
  have c: "RunServeAdmin \<in> {RunServeAdmin, RunServePublic, RunServeAll}" by simp
  have h: "RunServeAdmin socket_world example_sl example_cmd
     = Spawn 1 [\<lparr>task_d = socket_registry, task_cmd = example_cmd, task_iface = AdminInterface,
                 task_handler =
                   [ReqLog ''hydra/admin: https://hydra.example/'' [], PrometheusManager,
                    MetricsService, HandlerFunc (ServiceLocatorFunc 7),
                    HandlerFunc (ServiceLocatorFunc 8), Wrap RouterAdmin],
                 task_address = ''unix:/tmp/admin.sock'', task_permission = ''0644''\<rparr>]"
    by (simp add: RunServeAdmin_def isDSNAllowed_def deployment_defs stack_defs)
  have u: "AddressIsUnixSocket socket_world (ListenOn (Config socket_registry) AdminInterface)"
    by (simp add: deployment_defs)
  from gate_iff_not_unix_socket [OF c h] u h show ?thesis
    by simp
qed

text \<open>
  Claim C5, what the code does instead. No stack that a command composes holds a
  contextual CORS middleware: the composer builds one and drops it, so no stage of the
  stack consults the CORS configuration.
\<close>

theorem cors_stage_absent:
  assumes "command \<in> {RunServeAdmin, RunServePublic, RunServeAll}"
    and "command w sl cmd = Spawn n ts" and "t \<in> set ts"
  shows "filter is_cors (task_handler t) = []"
  using task_pipeline [OF assms] by (auto simp add: filter_sl_cors)

text \<open>The public task of the concrete deployment, whose configuration enables CORS.\<close>

theorem cors_stage_absent_witness:
  "RunServeAll example_world example_sl example_cmd = Spawn 2 example_tasks
   \<and> example_tasks ! 0 \<in> set example_tasks
   \<and> snd (CORS (Config (task_d (example_tasks ! 0))) (task_iface (example_tasks ! 0)))
   \<and> filter is_cors (task_handler (example_tasks ! 0)) = []"
proof -
  have c: "RunServeAll \<in> {RunServeAdmin, RunServePublic, RunServeAll}" by simp
  have m: "example_tasks ! 0 \<in> set example_tasks" by (simp add: example_tasks_eval)
  have e: "snd (CORS (Config (task_d (example_tasks ! 0))) (task_iface (example_tasks ! 0)))"
    by (simp add: example_tasks_eval deployment_defs)
  from cors_stage_absent [OF c example_run_all m] example_run_all m e show ?thesis
    by simp
qed

text \<open>
  Claim C9. The \<^verbatim>\<open>enableCORS\<close> argument of the composer has no effect: with all other
  arguments fixed, any two values of it give the same stack.
\<close>

theorem enableCORS_ignored:
  "EnhanceMiddleware w sl d n address router enableCORS iface =
     EnhanceMiddleware w sl d n address router enableCORS' iface"
  by (simp add: EnhanceMiddleware_def)

text \<open>The values that the admin path and the public path pass, on one stack.\<close>

theorem enableCORS_ignored_witness:
  "EnhanceMiddleware example_world example_sl example_registry [] '':4445'' RouterAdmin True
     AdminInterface
   = EnhanceMiddleware example_world example_sl example_registry [] '':4445'' RouterAdmin False
       AdminInterface"
  using enableCORS_ignored [of example_world example_sl example_registry "[]" "'':4445''"
      RouterAdmin True AdminInterface False]
  by simp

subsection \<open>The listener and the serve call\<close>

lemma Key_prefix_admin: "(Key iface ''prefix'' = ''serve.admin.prefix'') = (iface = AdminInterface)"
  by (cases iface) (simp_all add: Key_def)

lemma serve_listener_cases:
  "serve_listener w cmd iface address permission =
     (if GetBool_zitified cmd \<and> iface = AdminInterface
      then (if Getenv w ''ZITI_SERVICE'' = []
            then ([Infof (''CW: Incoming config interface: '' @ Key iface ''prefix'')],
                  Inl (Error ''Zitified flag set, but ZITI_SERVICE environment variable not found''))
            else ([Infof (''CW: Incoming config interface: '' @ Key iface ''prefix''),
                   Infof (''Setting up Zitified listener on '' @ Getenv w ''ZITI_SERVICE''),
                   Call_ListenWithOptions (Getenv w ''ZITI_SERVICE'')
                     \<lparr>ConnectTimeout = 5 * time_Minute, MaxConnections = 3\<rparr>],
                  case ListenWithOptions w (Getenv w ''ZITI_SERVICE'')
                         \<lparr>ConnectTimeout = 5 * time_Minute, MaxConnections = 3\<rparr> of
                    Some err \<Rightarrow> Inl err
                  | None \<Rightarrow> Inr (ZitiListener (Getenv w ''ZITI_SERVICE'')
                               \<lparr>ConnectTimeout = 5 * time_Minute, MaxConnections = 3\<rparr>)))
      else ([Infof (''CW: Incoming config interface: '' @ Key iface ''prefix''),
             Infof ''Setting non Zitified listener'', Call_MakeListener address permission],
            MakeListener w address permission))"
  unfolding serve_listener_def Let_def Key_prefix_admin
  by (simp split: option.splits sum.splits)

lemma listener_log_quiet:
  assumes "serve_listener w cmd iface address permission = (log, r)"
  shows "filter is_warning log = []" and "filter is_serve_call log = []"
proof -
  have "filter is_warning (fst (serve_listener w cmd iface address permission)) = []"
    and "filter is_serve_call (fst (serve_listener w cmd iface address permission)) = []"
    by (simp_all add: serve_listener_cases)
  with assms show "filter is_warning log = []" and "filter is_serve_call log = []"
    by simp_all
qed

lemma serve_start_listening:
  assumes "serve_listener w cmd iface address permission = (log, Inr l)"
  shows "serve_start w cmd iface address permission tlsConfig =
           ([Infof (''Setting up http server on '' @ address)] @ log
              @ fst (serve_dispatch w iface address tlsConfig l),
            Inr (snd (serve_dispatch w iface address tlsConfig l)))"
  using assms by (simp add: serve_start_def split: prod.splits)

lemma Graceful_listening:
  "Graceful w (log, Inr call) =
     (log @ [Call_Serve call],
      if http_Serve w call \<noteq> ErrServerClosed then Some (http_Serve w call) else shutdown w)"
  by (simp add: Graceful_def)

lemma serve_after_tls:
  assumes "\<not> (Enabled (TLS (Config d) iface) \<and> GetOrCreateTLSCertificate w iface = None)"
    and "tlsConfig = (if Enabled (TLS (Config d) iface)
                      then map_option (\<lambda>cs. \<lparr>Certificates = cs\<rparr>)
                             (GetOrCreateTLSCertificate w iface)
                      else None)"
    and "Graceful w (serve_start w cmd iface address permission tlsConfig) = (log1, r)"
  shows "serve w d cmd iface handler address permission =
           ((if Enabled (TLS (Config d) iface) then [Call_GetOrCreateTLSCertificate iface] else [])
              @ log1 @ (if r \<noteq> None then [Fatal ''Could not gracefully run server''] else []),
            Some \<lparr>Handler = (if Tracer_IsLoaded d then TraceHandler (NegroniHandler handler)
                             else NegroniHandler handler),
                  TLSConfig = tlsConfig, ReadHeaderTimeout = time_Second * 5\<rparr>,
            if r \<noteq> None then ProcessExit else Returns)"
proof (cases r)
  case None
  with assms show ?thesis unfolding serve_def Let_def by simp
next
  case (Some err)
  with assms show ?thesis unfolding serve_def Let_def by simp
qed

text \<open>A task whose listener exists and whose certificates, if asked for, arrived: the
  server it builds and the events it leaves, up to the serve call and a final fatal line.\<close>

lemma serve_events:
  assumes "serve_listener w cmd iface address permission = (log, Inr l)"
    and "\<not> (Enabled (TLS (Config d) iface) \<and> GetOrCreateTLSCertificate w iface = None)"
  shows "\<exists>tlsConfig fatal.
           tlsConfig = (if Enabled (TLS (Config d) iface)
                        then map_option (\<lambda>cs. \<lparr>Certificates = cs\<rparr>)
                               (GetOrCreateTLSCertificate w iface)
                        else None) \<and>
           fst (snd (serve w d cmd iface handler address permission)) =
             Some \<lparr>Handler = (if Tracer_IsLoaded d then TraceHandler (NegroniHandler handler)
                              else NegroniHandler handler),
                   TLSConfig = tlsConfig, ReadHeaderTimeout = time_Second * 5\<rparr> \<and>
           fst (serve w d cmd iface handler address permission) =
             (if Enabled (TLS (Config d) iface) then [Call_GetOrCreateTLSCertificate iface] else [])
             @ [Infof (''Setting up http server on '' @ address)] @ log
             @ fst (serve_dispatch w iface address tlsConfig l)
             @ [Call_Serve (snd (serve_dispatch w iface address tlsConfig l))]
             @ (if fatal then [Fatal ''Could not gracefully run server''] else [])"
proof -
  define tlsConfig where "tlsConfig = (if Enabled (TLS (Config d) iface)
                        then map_option (\<lambda>cs. \<lparr>Certificates = cs\<rparr>)
                               (GetOrCreateTLSCertificate w iface)
                        else None)"
  define call where "call = snd (serve_dispatch w iface address tlsConfig l)"
  define r where "r = (if http_Serve w call \<noteq> ErrServerClosed then Some (http_Serve w call)
                       else shutdown w)"
  have g: "Graceful w (serve_start w cmd iface address permission tlsConfig) =
             ([Infof (''Setting up http server on '' @ address)] @ log
                @ fst (serve_dispatch w iface address tlsConfig l) @ [Call_Serve call], r)"
    unfolding serve_start_listening [OF assms(1)] Graceful_listening call_def r_def by simp
  from serve_after_tls [OF assms(2) tlsConfig_def g, of handler]
  have "fst (snd (serve w d cmd iface handler address permission)) =
             Some \<lparr>Handler = (if Tracer_IsLoaded d then TraceHandler (NegroniHandler handler)
                              else NegroniHandler handler),
                   TLSConfig = tlsConfig, ReadHeaderTimeout = time_Second * 5\<rparr>"
    and "fst (serve w d cmd iface handler address permission) =
             (if Enabled (TLS (Config d) iface) then [Call_GetOrCreateTLSCertificate iface] else [])
             @ [Infof (''Setting up http server on '' @ address)] @ log
             @ fst (serve_dispatch w iface address tlsConfig l)
             @ [Call_Serve (snd (serve_dispatch w iface address tlsConfig l))]
             @ (if r \<noteq> None then [Fatal ''Could not gracefully run server''] else [])"
    by (simp_all add: call_def)
  with tlsConfig_def show ?thesis by blast
qed

text \<open>
  Claim C2, as the code has it. A listener that the serving task obtains is the overlay
  listener for the service named by \<^verbatim>\<open>ZITI_SERVICE\<close> whenever the tunnel flag is set and
  the interface is Admin, whatever the shape of the address; otherwise it is a unix-socket
  listener when the address is a unix socket, and a TCP listener in every other case, the
  Public interface with the flag set included.
\<close>

theorem listener_transport:
  assumes "serve_listener w cmd iface address permission = (log, Inr listener)"
  shows "listener =
           (if GetBool_zitified cmd \<and> iface = AdminInterface
            then ZitiListener (Getenv w ''ZITI_SERVICE'')
                   \<lparr>ConnectTimeout = 5 * time_Minute, MaxConnections = 3\<rparr>
            else if AddressIsUnixSocket w address then UnixListener address permission
            else TCPListener address)"
  using assms
  by (auto simp add: serve_listener_cases MakeListener_def split: if_splits option.splits)

text \<open>The Public interface with the tunnel flag set, on \<^verbatim>\<open>:4444\<close>: a TCP listener.\<close>

theorem listener_transport_witness:
  "serve_listener example_world zitified_cmd PublicInterface '':4444'' ''0644'' =
     ([Infof ''CW: Incoming config interface: serve.public.prefix'',
       Infof ''Setting non Zitified listener'', Call_MakeListener '':4444'' ''0644''],
      Inr (TCPListener '':4444''))"
proof -
  obtain log l where
    h: "serve_listener example_world zitified_cmd PublicInterface '':4444'' ''0644'' = (log, Inr l)"
    by (simp add: serve_defs deployment_defs)
  from listener_transport [OF h] have "l = TCPListener '':4444''"
    by (simp add: deployment_defs)
  with h show ?thesis by (simp add: serve_defs deployment_defs)
qed

text \<open>
  The claim's first case fails on the Admin interface with the tunnel flag set and a
  unix-socket address: the listener comes from the overlay, not from the socket.
\<close>

theorem unix_address_tunnel_counterexample:
  "AddressIsUnixSocket example_world ''unix:/tmp/admin.sock''
   \<and> snd (serve_listener example_world zitified_cmd AdminInterface ''unix:/tmp/admin.sock''
            ''0644'')
     = Inr (ZitiListener ''nf-hydra-service''
              \<lparr>ConnectTimeout = 300000000000, MaxConnections = 3\<rparr>)"
  by (simp add: serve_defs deployment_defs)

text \<open>
  Claim C6. With the tunnel flag set on the Admin interface and \<^verbatim>\<open>ZITI_SERVICE\<close> unset,
  the start closure returns the error that names the variable, neither it nor the whole
  task makes a call that creates a listener, and the task ends the process.
\<close>

theorem ziti_service_unset:
  assumes "GetBool_zitified cmd" and "Getenv w ''ZITI_SERVICE'' = []"
  shows "snd (serve_start w cmd AdminInterface address permission tlsConfig) =
           Inl (Error (''Zitified flag set, but '' @ ''ZITI_SERVICE''
                        @ '' environment variable not found''))
         \<and> filter is_listen_call
             (fst (serve_start w cmd AdminInterface address permission tlsConfig)) = []
         \<and> filter is_listen_call (fst (serve w d cmd AdminInterface handler address permission)) = []
         \<and> snd (snd (serve w d cmd AdminInterface handler address permission)) = ProcessExit"
  using assms
  by (simp add: serve_def serve_start_def serve_listener_cases Graceful_def Let_def)

text \<open>The admin task on \<^verbatim>\<open>:4445\<close> in the world without the variable.\<close>

theorem ziti_service_unset_witness:
  "GetBool_zitified zitified_cmd \<and> Getenv unset_world ''ZITI_SERVICE'' = []
   \<and> serve_start unset_world zitified_cmd AdminInterface '':4445'' ''0644'' None =
       ([Infof ''Setting up http server on :4445'',
         Infof ''CW: Incoming config interface: serve.admin.prefix''],
        Inl (Error ''Zitified flag set, but ZITI_SERVICE environment variable not found''))
   \<and> snd (snd (serve unset_world example_registry zitified_cmd AdminInterface [] '':4445''
                  ''0644'')) = ProcessExit"
proof -
  have z: "GetBool_zitified zitified_cmd" by (simp add: zitified_cmd_def)
  have g: "Getenv unset_world ''ZITI_SERVICE'' = []" by (simp add: deployment_defs)
  have s: "serve_start unset_world zitified_cmd AdminInterface '':4445'' ''0644'' None =
       ([Infof ''Setting up http server on :4445'',
         Infof ''CW: Incoming config interface: serve.admin.prefix''],
        Inl (Error ''Zitified flag set, but ZITI_SERVICE environment variable not found''))"
    by (simp add: serve_defs deployment_defs)
  from ziti_service_unset [OF z g, of "'':4445''" "''0644''" None example_registry "[]"] z g s
  show ?thesis by simp
qed

text \<open>
  Claim C3. A task that has its listener makes exactly one serve call: the plain
  \<^verbatim>\<open>Serve\<close> on the raw listener when the address is a unix socket; else \<^verbatim>\<open>ServeTLS\<close> when
  a TLS context was built, which is when TLS is enabled for the interface; else the plain
  \<^verbatim>\<open>Serve\<close>. The warning that HTTPS is disabled is written in the third case on the Public
  interface, once, and in no other case.
\<close>

theorem serving_dispatch:
  assumes "serve_listener w cmd iface address permission = (log, Inr l)"
    and "\<not> (Enabled (TLS (Config d) iface) \<and> GetOrCreateTLSCertificate w iface = None)"
  shows "\<exists>srv. fst (snd (serve w d cmd iface handler address permission)) = Some srv \<and>
           (TLSConfig srv \<noteq> None \<longleftrightarrow> Enabled (TLS (Config d) iface)) \<and>
           filter is_serve_call (fst (serve w d cmd iface handler address permission)) =
             [Call_Serve (if AddressIsUnixSocket w address then Serve l
                          else if TLSConfig srv \<noteq> None then ServeTLS l [] []
                          else Serve l)] \<and>
           filter is_warning (fst (serve w d cmd iface handler address permission)) =
             (if \<not> AddressIsUnixSocket w address \<and> TLSConfig srv = None
                   \<and> iface = PublicInterface
              then [Warnln https_disabled_message] else [])"
proof -
  from serve_events [OF assms, of handler] obtain tlsConfig fatal where
    t: "tlsConfig = (if Enabled (TLS (Config d) iface)
                        then map_option (\<lambda>cs. \<lparr>Certificates = cs\<rparr>)
                               (GetOrCreateTLSCertificate w iface)
                        else None)"
    and s: "fst (snd (serve w d cmd iface handler address permission)) =
             Some \<lparr>Handler = (if Tracer_IsLoaded d then TraceHandler (NegroniHandler handler)
                              else NegroniHandler handler),
                   TLSConfig = tlsConfig, ReadHeaderTimeout = time_Second * 5\<rparr>"
    and e: "fst (serve w d cmd iface handler address permission) =
             (if Enabled (TLS (Config d) iface) then [Call_GetOrCreateTLSCertificate iface] else [])
             @ [Infof (''Setting up http server on '' @ address)] @ log
             @ fst (serve_dispatch w iface address tlsConfig l)
             @ [Call_Serve (snd (serve_dispatch w iface address tlsConfig l))]
             @ (if fatal then [Fatal ''Could not gracefully run server''] else [])"
    by blast
  from t assms(2) have en: "tlsConfig \<noteq> None \<longleftrightarrow> Enabled (TLS (Config d) iface)"
    by auto
  note q = listener_log_quiet [OF assms(1)]
  show ?thesis
    unfolding s e using en q by (simp add: serve_dispatch_def)
qed

text \<open>The Public interface on \<^verbatim>\<open>:4444\<close> with TLS disabled: the plain call and the warning.\<close>

theorem serving_dispatch_witness:
  "serve_listener example_world example_cmd PublicInterface '':4444'' ''0644'' =
     ([Infof ''CW: Incoming config interface: serve.public.prefix'',
       Infof ''Setting non Zitified listener'', Call_MakeListener '':4444'' ''0644''],
      Inr (TCPListener '':4444''))
   \<and> \<not> (Enabled (TLS (Config example_registry) PublicInterface)
          \<and> GetOrCreateTLSCertificate example_world PublicInterface = None)
   \<and> filter is_serve_call
       (fst (serve example_world example_registry example_cmd PublicInterface [] '':4444''
               ''0644''))
     = [Call_Serve (Serve (TCPListener '':4444''))]
   \<and> filter is_warning
       (fst (serve example_world example_registry example_cmd PublicInterface [] '':4444''
               ''0644''))
     = [Warnln https_disabled_message]"
proof -
  have h: "serve_listener example_world example_cmd PublicInterface '':4444'' ''0644'' =
     ([Infof ''CW: Incoming config interface: serve.public.prefix'',
       Infof ''Setting non Zitified listener'', Call_MakeListener '':4444'' ''0644''],
      Inr (TCPListener '':4444''))"
    by (simp add: serve_defs deployment_defs)
  have c: "\<not> (Enabled (TLS (Config example_registry) PublicInterface)
          \<and> GetOrCreateTLSCertificate example_world PublicInterface = None)"
    by (simp add: deployment_defs)
  have u: "\<not> AddressIsUnixSocket example_world '':4444''"
    and e: "\<not> Enabled (TLS (Config example_registry) PublicInterface)"
    by (simp_all add: deployment_defs)
  from serving_dispatch [OF h c, of "[]"] u e have
    "filter is_serve_call
       (fst (serve example_world example_registry example_cmd PublicInterface [] '':4444''
               ''0644''))
     = [Call_Serve (Serve (TCPListener '':4444''))]"
    and "filter is_warning
       (fst (serve example_world example_registry example_cmd PublicInterface [] '':4444''
               ''0644''))
     = [Warnln https_disabled_message]"
    by auto
  with h c show ?thesis by blast
qed

text \<open>
  Claim C10. With TLS enabled on an interface whose address is a unix socket, the task
  first acquires the certificates and builds the server with the TLS context, and then
  serves the raw listener with the plain \<^verbatim>\<open>Serve\<close>; it makes no \<^verbatim>\<open>ServeTLS\<close> call.
\<close>

theorem tls_context_unused_on_unix_socket:
  assumes "Enabled (TLS (Config d) iface)"
    and "AddressIsUnixSocket w address"
    and "GetOrCreateTLSCertificate w iface = Some certs"
    and "serve_listener w cmd iface address permission = (log, Inr l)"
  shows "\<exists>srv. fst (snd (serve w d cmd iface handler address permission)) = Some srv \<and>
           TLSConfig srv = Some \<lparr>Certificates = certs\<rparr> \<and>
           hd (fst (serve w d cmd iface handler address permission)) =
             Call_GetOrCreateTLSCertificate iface \<and>
           filter is_serve_call (fst (serve w d cmd iface handler address permission)) =
             [Call_Serve (Serve l)]"
proof -
  have c: "\<not> (Enabled (TLS (Config d) iface) \<and> GetOrCreateTLSCertificate w iface = None)"
    using assms(3) by simp
  from serve_events [OF assms(4) c, of handler] obtain tlsConfig fatal where
    t: "tlsConfig = (if Enabled (TLS (Config d) iface)
                        then map_option (\<lambda>cs. \<lparr>Certificates = cs\<rparr>)
                               (GetOrCreateTLSCertificate w iface)
                        else None)"
    and s: "fst (snd (serve w d cmd iface handler address permission)) =
             Some \<lparr>Handler = (if Tracer_IsLoaded d then TraceHandler (NegroniHandler handler)
                              else NegroniHandler handler),
                   TLSConfig = tlsConfig, ReadHeaderTimeout = time_Second * 5\<rparr>"
    and e: "fst (serve w d cmd iface handler address permission) =
             (if Enabled (TLS (Config d) iface) then [Call_GetOrCreateTLSCertificate iface] else [])
             @ [Infof (''Setting up http server on '' @ address)] @ log
             @ fst (serve_dispatch w iface address tlsConfig l)
             @ [Call_Serve (snd (serve_dispatch w iface address tlsConfig l))]
             @ (if fatal then [Fatal ''Could not gracefully run server''] else [])"
    by blast
  note q = listener_log_quiet [OF assms(4)]
  show ?thesis
    unfolding s e using t assms(1-3) q by (simp add: serve_dispatch_def)
qed

text \<open>The admin interface on \<^verbatim>\<open>unix:/tmp/admin.sock\<close> with TLS enabled.\<close>

theorem tls_context_unused_on_unix_socket_witness:
  "Enabled (TLS (Config socket_registry) AdminInterface)
   \<and> AddressIsUnixSocket socket_world ''unix:/tmp/admin.sock''
   \<and> GetOrCreateTLSCertificate socket_world AdminInterface = Some [1]
   \<and> snd (serve_listener socket_world example_cmd AdminInterface ''unix:/tmp/admin.sock''
            ''0644'') = Inr (UnixListener ''unix:/tmp/admin.sock'' ''0644'')
   \<and> hd (fst (serve socket_world socket_registry example_cmd AdminInterface []
                 ''unix:/tmp/admin.sock'' ''0644''))
       = Call_GetOrCreateTLSCertificate AdminInterface
   \<and> filter is_serve_call
       (fst (serve socket_world socket_registry example_cmd AdminInterface []
               ''unix:/tmp/admin.sock'' ''0644''))
     = [Call_Serve (Serve (UnixListener ''unix:/tmp/admin.sock'' ''0644''))]"
proof -
  have e: "Enabled (TLS (Config socket_registry) AdminInterface)"
    and u: "AddressIsUnixSocket socket_world ''unix:/tmp/admin.sock''"
    and g: "GetOrCreateTLSCertificate socket_world AdminInterface = Some [1]"
    by (simp_all add: deployment_defs)
  have l: "serve_listener socket_world example_cmd AdminInterface ''unix:/tmp/admin.sock''
             ''0644''
           = ([Infof ''CW: Incoming config interface: serve.admin.prefix'',
               Infof ''Setting non Zitified listener'',
               Call_MakeListener ''unix:/tmp/admin.sock'' ''0644''],
              Inr (UnixListener ''unix:/tmp/admin.sock'' ''0644''))"
    by (simp add: serve_defs deployment_defs)
  from tls_context_unused_on_unix_socket [OF e u g l, of "[]"] e u g l show ?thesis
    by auto
qed

subsection \<open>The data-source guard\<close>

text \<open>
  Claim C7. A command ends the process with the message of the data-source guard exactly
  when it is one of the two standalone commands, \<^verbatim>\<open>driver.New\<close> gave a registry, and the
  DSN of that registry is \<^verbatim>\<open>memory\<close>. The command that serves both interfaces never ends
  with that message.
\<close>

theorem dsn_guard_standalone_only:
  "(RunServeAdmin w sl cmd = FatalExit dsn_memory_message
      \<longleftrightarrow> (\<exists>d. driver_New w = Inr d \<and> DSN (Config d) = ''memory''))
   \<and> (RunServePublic w sl cmd = FatalExit dsn_memory_message
      \<longleftrightarrow> (\<exists>d. driver_New w = Inr d \<and> DSN (Config d) = ''memory''))
   \<and> RunServeAll w sl cmd \<noteq> FatalExit dsn_memory_message"
proof -
  have m: "\<And>d msg. setup_fn w d = Inl msg \<Longrightarrow> msg \<noteq> dsn_memory_message"
    by (auto simp add: setup_fn_def dsn_memory_message_def Let_def split: if_splits)
  show ?thesis
    using m
    by (auto simp add: RunServeAdmin_def RunServePublic_def RunServeAll_def isDSNAllowed_def
        split: sum.splits prod.splits if_splits)
qed

text \<open>The in-memory deployment under the three commands, and the database deployment
  under the admin command.\<close>

theorem dsn_guard_standalone_only_witness:
  "RunServeAdmin memory_world example_sl example_cmd = FatalExit dsn_memory_message
   \<and> RunServePublic memory_world example_sl example_cmd = FatalExit dsn_memory_message
   \<and> RunServeAll memory_world example_sl example_cmd \<noteq> FatalExit dsn_memory_message
   \<and> RunServeAdmin example_world example_sl example_cmd \<noteq> FatalExit dsn_memory_message"
  using dsn_guard_standalone_only [of memory_world example_sl example_cmd]
    dsn_guard_standalone_only [of example_world example_sl example_cmd]
  by (simp add: deployment_defs)

subsection \<open>Waiting for the serving tasks\<close>

lemma running_update:
  assumes "i < length xs" and "xs ! i = Running" and "y \<noteq> Running"
  shows "int (length (filter (\<lambda>s. s = Running) (xs[i := y]))) =
           int (length (filter (\<lambda>s. s = Running) xs)) - 1"
  using assms
proof (induction xs arbitrary: i)
  case Nil
  then show ?case by simp
next
  case (Cons x xs)
  then show ?case by (cases i) auto
qed

lemma exits_update:
  assumes "i < length xs" and "xs ! i = Running"
    and "filter (\<lambda>s. s = Ended ProcessExit) xs = []"
  shows "filter (\<lambda>s. s = Ended ProcessExit) (xs[i := Ended Returns]) = []"
  using assms
proof (induction xs arbitrary: i)
  case Nil
  then show ?case by simp
next
  case (Cons x xs)
  then show ?case by (cases i) (auto split: if_splits)
qed

lemma running_positive:
  assumes "i < length xs" and "xs ! i = Running"
  shows "0 < length (filter (\<lambda>s. s = Running) xs)"
proof -
  from assms have "Running \<in> set xs" by (metis nth_mem)
  then show ?thesis by (simp add: filter_empty_conv)
qed

lemma step_invariant:
  assumes "step w ts a p = Some p'" and "wg_invariant p"
  shows "wg_invariant p'"
proof (cases a)
  case (TaskEnds i)
  with assms(1) have e: "\<not> exited p" and i: "i < length (status p)"
    and r: "status p ! i = Running"
    by (auto split: if_splits)
  from assms(2) e have c: "wg p = int (length (filter (\<lambda>s. s = Running) (status p)))"
    and x: "filter (\<lambda>s. s = Ended ProcessExit) (status p) = []"
    by (simp_all add: wg_invariant_def)
  from running_positive [OF i r] c have pos: "wg p \<noteq> 0" by simp
  with assms(2) e have nr: "\<not> returned p" by (auto simp add: wg_invariant_def)
  show ?thesis
  proof (cases "snd (snd (run_task w (ts ! i)))")
    case Returns
    with TaskEnds assms(1) e i r
    have p': "p' = p\<lparr>status := (status p)[i := Ended Returns], wg := wg p - 1\<rparr>"
      by simp
    show ?thesis
      unfolding p' wg_invariant_def
      using e nr c running_update [OF i r, of "Ended Returns"] exits_update [OF i r x]
      by simp
  next
    case ProcessExit
    with TaskEnds assms(1) e i r
    have p': "p' = p\<lparr>status := (status p)[i := Ended ProcessExit], exited := True\<rparr>"
      by simp
    show ?thesis
      unfolding p' wg_invariant_def using nr by simp
  qed
next
  case WaitReturns
  with assms show ?thesis
    by (auto simp add: wg_invariant_def split: if_splits)
qed

lemma step_length:
  assumes "step w ts a p = Some p'"
  shows "length (status p') = length (status p)"
  using assms by (cases a) (auto split: if_splits TaskEnd.splits)

lemma run_invariant:
  assumes "run w ts schedule p = Some p'" and "wg_invariant p"
  shows "wg_invariant p' \<and> length (status p') = length (status p)"
  using assms
proof (induction schedule arbitrary: p)
  case Nil
  then show ?case by simp
next
  case (Cons a schedule)
  from Cons.prems(1) obtain q where q: "step w ts a p = Some q"
    and rest: "run w ts schedule q = Some p'"
    by (auto split: option.splits)
  from step_invariant [OF q Cons.prems(2)] Cons.IH [OF rest] step_length [OF q]
  show ?case by simp
qed

lemma all_ended:
  assumes "filter (\<lambda>s. s = Running) xs = []" and "filter (\<lambda>s. s = Ended ProcessExit) xs = []"
  shows "xs = replicate (length xs) (Ended Returns)"
  using assms
proof (induction xs)
  case Nil
  then show ?case by simp
next
  case (Cons x xs)
  then show ?case
    by (cases x rule: TaskStatus.exhaust) (auto split: if_splits intro: TaskEnd.exhaust)
qed

lemma returned_all_ended:
  assumes "wg_invariant p" and "returned p"
  shows "status p = replicate (length (status p)) (Ended Returns)"
proof -
  from assms have "filter (\<lambda>s. s = Running) (status p) = []"
    and "filter (\<lambda>s. s = Ended ProcessExit) (status p) = []"
    by (auto simp add: wg_invariant_def split: if_splits)
  then show ?thesis by (rule all_ended)
qed

lemma RunServeAll_spawn:
  assumes "driver_New w = Inr d" and "setup_fn w d = Inr stacks"
  shows "\<exists>ts. RunServeAll w sl cmd = Spawn 2 ts
              \<and> map task_iface ts = [PublicInterface, AdminInterface]"
  using assms
  by (cases stacks) (simp add: RunServeAll_def)

text \<open>
  Claim C8. When \<^verbatim>\<open>driver.New\<close> and \<^verbatim>\<open>setup\<close> succeed, the command that serves both
  interfaces sets the wait group to two and starts exactly two serving tasks, the Public
  one and the Admin one; and under every schedule of task endings, once the command has
  returned from its wait, both tasks have ended, each by returning from \<^verbatim>\<open>serve\<close>.
\<close>

theorem both_tasks_joined:
  assumes "driver_New w = Inr d" and "setup_fn w d = Inr stacks"
  shows "\<exists>ts. RunServeAll w sl cmd = Spawn 2 ts
           \<and> map task_iface ts = [PublicInterface, AdminInterface]
           \<and> (\<forall>schedule p. run w ts schedule (spawn 2 ts) = Some p \<and> returned p
                \<longrightarrow> status p = [Ended Returns, Ended Returns])"
proof -
  from RunServeAll_spawn [OF assms, of sl cmd] obtain ts where
    s: "RunServeAll w sl cmd = Spawn 2 ts"
    and m: "map task_iface ts = [PublicInterface, AdminInterface]"
    by (elim exE conjE)
  from m have len: "length ts = 2"
    by (metis length_map length_Cons list.size(3) numeral_2_eq_2)
  then have init: "wg_invariant (spawn 2 ts)"
    by (simp add: wg_invariant_def spawn_def)
  have j: "status p = [Ended Returns, Ended Returns]"
    if "run w ts schedule (spawn 2 ts) = Some p" and "returned p" for schedule p
  proof -
    from run_invariant [OF that(1) init]
    have "wg_invariant p" and "length (status p) = 2"
      using len by (simp_all add: spawn_def)
    with returned_all_ended [OF _ that(2)] show ?thesis
      by (simp add: numeral_2_eq_2)
  qed
  show ?thesis
  proof (intro exI [of _ ts] conjI allI impI)
    show "RunServeAll w sl cmd = Spawn 2 ts" by (rule s)
    show "map task_iface ts = [PublicInterface, AdminInterface]" by (rule m)
    fix schedule p
    assume "run w ts schedule (spawn 2 ts) = Some p \<and> returned p"
    then have "run w ts schedule (spawn 2 ts) = Some p" and "returned p"
      by simp_all
    then show "status p = [Ended Returns, Ended Returns]" by (rule j)
  qed
qed

text \<open>
  The concrete deployment: the admin task ends first, then the public one, then the wait
  returns. A wait that returns while the public task still runs is no step.
\<close>

theorem both_tasks_joined_witness:
  "driver_New example_world = Inr example_registry
   \<and> setup_fn example_world example_registry =
       Inr (RouterAdmin, RouterPublic,
            [ReqLog ''hydra/admin: https://hydra.example/'' [], PrometheusManager, MetricsService],
            [ReqLog ''hydra/public: https://hydra.example/'' [], PrometheusManager,
             MetricsService])
   \<and> RunServeAll example_world example_sl example_cmd = Spawn 2 example_tasks
   \<and> map task_iface example_tasks = [PublicInterface, AdminInterface]
   \<and> run example_world example_tasks [TaskEnds 1, TaskEnds 0, WaitReturns]
       (spawn 2 example_tasks)
     = Some \<lparr>wg = 0, status = [Ended Returns, Ended Returns], returned = True, exited = False\<rparr>
   \<and> run example_world example_tasks [TaskEnds 1, WaitReturns] (spawn 2 example_tasks) = None"
proof -
  have d: "driver_New example_world = Inr example_registry"
    by (simp add: example_world_def)
  have s: "setup_fn example_world example_registry =
       Inr (RouterAdmin, RouterPublic,
            [ReqLog ''hydra/admin: https://hydra.example/'' [], PrometheusManager, MetricsService],
            [ReqLog ''hydra/public: https://hydra.example/'' [], PrometheusManager,
             MetricsService])"
    by (simp add: deployment_defs stack_defs)
  have r: "run example_world example_tasks [TaskEnds 1, TaskEnds 0, WaitReturns]
             (spawn 2 example_tasks)
           = Some \<lparr>wg = 0, status = [Ended Returns, Ended Returns], returned = True,
                   exited = False\<rparr>"
    unfolding example_tasks_eval
    by (simp add: spawn_def serve_defs deployment_defs)
  have n: "run example_world example_tasks [TaskEnds 1, WaitReturns] (spawn 2 example_tasks)
           = None"
    unfolding example_tasks_eval
    by (simp add: spawn_def serve_defs deployment_defs)
  from both_tasks_joined [OF d s, of example_sl example_cmd] example_run_all d s r n
  show ?thesis by auto
qed

end
